theory Spec2Isabelle
  imports Main "HOL-Library.Sublist"
begin

section \<open>JavaScript values\<close>

text \<open>
  The dispatcher of \<^verbatim>\<open>src/index.ts\<close> moves JavaScript values around: the
  arguments of a tool call, the result of a handler, the value a handler throws.
  They are modelled as the values of JSON plus \<^verbatim>\<open>undefined\<close>. Strings are lists of
  8-bit characters; an object is the list of its own enumerable properties in
  the order the language enumerates them, each a data property whose value is
  again such a value (so no property is a function), and its prototype is
  \<^verbatim>\<open>Object.prototype\<close>; arrays have no holes.

  The program never computes with a number: it prints it or tests it for truth.
  A finite number is kept as the decimal text the language prints for it
  (\<^verbatim>\<open>82.5\<close>, \<^verbatim>\<open>-3\<close>, \<^verbatim>\<open>1e+21\<close>; both zeros print as \<^verbatim>\<open>0\<close>), which is all these two
  uses see of it.
\<close>

datatype number = NaN | Infinity | MinusInfinity | Finite string

datatype jsval =
    JUndefined
  | JNull
  | JBool bool
  | JNum number
  | JStr string
  | JArr "jsval list"
  | JObj "(string \<times> jsval) list"

text \<open>What \<^verbatim>\<open>throw\<close> carries: an instance of \<^verbatim>\<open>Error\<close> with its message, or any other value.\<close>

datatype jsthrown =
    JError string
  | JThrown jsval

text \<open>A settled promise: \<open>Inl\<close> is a rejection (or a synchronous throw), \<open>Inr\<close> a value.\<close>

type_synonym outcome = "jsthrown + jsval"

text \<open>
  \<^verbatim>\<open>!v\<close> is true exactly on the falsy values: \<^verbatim>\<open>undefined\<close>, \<^verbatim>\<open>null\<close>, \<^verbatim>\<open>false\<close>, zero,
  \<^verbatim>\<open>NaN\<close> and the empty string.
\<close>

fun truthy :: "jsval \<Rightarrow> bool" where
  "truthy JUndefined = False"
| "truthy JNull = False"
| "truthy (JBool b) = b"
| "truthy (JNum NaN) = False"
| "truthy (JNum (Finite t)) = (t \<noteq> ''0'')"
| "truthy (JNum n) = True"
| "truthy (JStr s) = (s \<noteq> [])"
| "truthy (JArr xs) = True"
| "truthy (JObj ps) = True"

subsection \<open>Numbers and strings as text\<close>

definition digit_char :: "nat \<Rightarrow> char" where
  "digit_char d = char_of (of_char (CHR ''0'') + d)"

fun nat_to_string :: "nat \<Rightarrow> string" where
  "nat_to_string n =
     (if n < 10 then [digit_char n] else nat_to_string (n div 10) @ [digit_char (n mod 10)])"

declare nat_to_string.simps [simp del]

text \<open>The text of a number, as \<^verbatim>\<open>String(n)\<close> gives it.\<close>

fun number_to_string :: "number \<Rightarrow> string" where
  "number_to_string NaN = ''NaN''"
| "number_to_string Infinity = ''Infinity''"
| "number_to_string MinusInfinity = ''-Infinity''"
| "number_to_string (Finite t) = t"

fun join :: "string \<Rightarrow> string list \<Rightarrow> string" where
  "join sep [] = []"
| "join sep [x] = x"
| "join sep (x # y # ys) = x @ sep @ join sep (y # ys)"

text \<open>
  \<^verbatim>\<open>String(v)\<close>, where \<open>None\<close> is the \<^verbatim>\<open>TypeError\<close> of a value that cannot be converted
  to a primitive. An array is its elements joined by commas, where \<^verbatim>\<open>null\<close> and
  \<^verbatim>\<open>undefined\<close> elements are empty and the conversion of any other element can
  fail. An object without an own property \<^verbatim>\<open>toString\<close> inherits the one that answers
  \<^verbatim>\<open>[object Object]\<close>. An object with an own property \<^verbatim>\<open>toString\<close> has one that is not
  a function: the conversion goes on to \<^verbatim>\<open>valueOf\<close>, which is not a function either
  or is the inherited one that answers the object itself, and fails.
\<close>

fun String :: "jsval \<Rightarrow> string option"
  and String_elements :: "jsval list \<Rightarrow> string list option" where
  "String JUndefined = Some ''undefined''"
| "String JNull = Some ''null''"
| "String (JBool b) = Some (if b then ''true'' else ''false'')"
| "String (JNum n) = Some (number_to_string n)"
| "String (JStr s) = Some s"
| "String (JArr xs) =
     (case String_elements xs of None \<Rightarrow> None | Some strs \<Rightarrow> Some (join '','' strs))"
| "String (JObj ps) =
     (case map_of ps ''toString'' of None \<Rightarrow> Some ''[object Object]'' | Some v \<Rightarrow> None)"
| "String_elements [] = Some []"
| "String_elements (x # xs) =
     (case (if x = JUndefined \<or> x = JNull then Some [] else String x) of
        None \<Rightarrow> None
      | Some str \<Rightarrow>
          (case String_elements xs of None \<Rightarrow> None | Some strs \<Rightarrow> Some (str # strs)))"

subsection \<open>\<^verbatim>\<open>JSON.stringify(value, null, 2)\<close>\<close>

definition hex_char :: "nat \<Rightarrow> char" where
  "hex_char d = (if d < 10 then digit_char d else char_of (of_char (CHR ''a'') + (d - 10)))"

text \<open>One character inside a JSON string literal.\<close>

definition quote_char :: "char \<Rightarrow> string" where
  "quote_char c =
     (if c = CHR 0x08 then [CHR 0x5C, CHR ''b'']
      else if c = CHR 0x09 then [CHR 0x5C, CHR ''t'']
      else if c = CHR 0x0A then [CHR 0x5C, CHR ''n'']
      else if c = CHR 0x0C then [CHR 0x5C, CHR ''f'']
      else if c = CHR 0x0D then [CHR 0x5C, CHR ''r'']
      else if c = CHR 0x22 then [CHR 0x5C, CHR 0x22]
      else if c = CHR 0x5C then [CHR 0x5C, CHR 0x5C]
      else if (of_char c :: nat) < 32
        then [CHR 0x5C, CHR ''u'', CHR ''0'', CHR ''0''] @ [hex_char (of_char c div 16), hex_char (of_char c mod 16)]
      else [c])"

definition QuoteJSONString :: "string \<Rightarrow> string" where
  "QuoteJSONString s = [CHR 0x22] @ concat (map quote_char s) @ [CHR 0x22]"

text \<open>
  The serialisation with the gap of two spaces. \<open>indent\<close> is the indentation
  of the enclosing level. A finite number is its text, any other number is
  \<^verbatim>\<open>null\<close>. A property \<^verbatim>\<open>toJSON\<close> is data, not a function, and is written like any
  other. A value that has no JSON text (\<^verbatim>\<open>undefined\<close>) gives
  \<open>None\<close>: as an array element it is written \<^verbatim>\<open>null\<close>, as a property it is left out,
  at the top \<^verbatim>\<open>JSON.stringify\<close> returns \<^verbatim>\<open>undefined\<close>.
\<close>

fun SerializeJSONProperty :: "string \<Rightarrow> jsval \<Rightarrow> string option"
  and SerializeJSONArray :: "string \<Rightarrow> jsval list \<Rightarrow> string list"
  and SerializeJSONObject :: "string \<Rightarrow> (string \<times> jsval) list \<Rightarrow> string list" where
  "SerializeJSONProperty indent JUndefined = None"
| "SerializeJSONProperty indent JNull = Some ''null''"
| "SerializeJSONProperty indent (JBool b) = Some (if b then ''true'' else ''false'')"
| "SerializeJSONProperty indent (JNum n) =
     Some (case n of Finite t \<Rightarrow> t | _ \<Rightarrow> ''null'')"
| "SerializeJSONProperty indent (JStr s) = Some (QuoteJSONString s)"
| "SerializeJSONProperty indent (JArr xs) =
     (case SerializeJSONArray (indent @ ''  '') xs of
        [] \<Rightarrow> Some ''[]''
      | partial \<Rightarrow>
          Some (''['' @ [CHR 0x0A] @ indent @ ''  '' @
                join ('','' @ [CHR 0x0A] @ indent @ ''  '') partial @
                [CHR 0x0A] @ indent @ '']''))"
| "SerializeJSONProperty indent (JObj ps) =
     (case SerializeJSONObject (indent @ ''  '') ps of
        [] \<Rightarrow> Some ''{}''
      | partial \<Rightarrow>
          Some (''{'' @ [CHR 0x0A] @ indent @ ''  '' @
                join ('','' @ [CHR 0x0A] @ indent @ ''  '') partial @
                [CHR 0x0A] @ indent @ ''}''))"
| "SerializeJSONArray indent [] = []"
| "SerializeJSONArray indent (x # xs) =
     (case SerializeJSONProperty indent x of
        None \<Rightarrow> ''null''
      | Some strP \<Rightarrow> strP) # SerializeJSONArray indent xs"
| "SerializeJSONObject indent [] = []"
| "SerializeJSONObject indent ((P, v) # ps) =
     (case SerializeJSONProperty indent v of
        None \<Rightarrow> SerializeJSONObject indent ps
      | Some strP \<Rightarrow> (QuoteJSONString P @ '': '' @ strP) # SerializeJSONObject indent ps)"

definition JSON_stringify :: "jsval \<Rightarrow> string option" where
  "JSON_stringify v = SerializeJSONProperty [] v"

section \<open>Objects and the spread syntax\<close>

text \<open>
  An ordinary object enumerates its array-index keys first, in ascending order,
  then its other string keys in the order they were created. \<open>array_index\<close>
  recognises the canonical decimal text of an integer below \<open>2^32 - 1\<close>.
\<close>

definition is_digit :: "char \<Rightarrow> bool" where
  "is_digit c = (48 \<le> (of_char c :: int) \<and> (of_char c :: int) \<le> 57)"

definition digits_value :: "string \<Rightarrow> int" where
  "digits_value s = foldl (\<lambda>n c. 10 * n + (of_char c - 48)) 0 s"

definition array_index :: "string \<Rightarrow> int option" where
  "array_index s =
     (case s of
        [] \<Rightarrow> None
      | c # cs \<Rightarrow>
          if list_all is_digit s \<and> (if c = CHR ''0'' then cs = [] else True)
             \<and> digits_value s < 4294967295
          then Some (digits_value s) else None)"

text \<open>Whether a new key \<open>k\<close> is enumerated before the existing key \<open>k'\<close>.\<close>

definition key_before :: "string \<Rightarrow> string \<Rightarrow> bool" where
  "key_before k k' =
     (case array_index k of
        None \<Rightarrow> False
      | Some i \<Rightarrow> (case array_index k' of None \<Rightarrow> True | Some j \<Rightarrow> i < j))"

text \<open>
  Defining the data property \<open>k\<close>: an existing property keeps its place and takes
  the new value, a new one is created at its place in the enumeration order.
\<close>

fun obj_set :: "string \<Rightarrow> 'a \<Rightarrow> (string \<times> 'a) list \<Rightarrow> (string \<times> 'a) list" where
  "obj_set k v [] = [(k, v)]"
| "obj_set k v ((k', v') # ps) =
     (if k = k' then (k, v) # ps
      else if key_before k k' then (k, v) # (k', v') # ps
      else (k', v') # obj_set k v ps)"

text \<open>\<^verbatim>\<open>{...target, ...source}\<close>: each own property of the source is defined on the target, in order.\<close>

definition spread :: "(string \<times> 'a) list \<Rightarrow> (string \<times> 'a) list \<Rightarrow> (string \<times> 'a) list" where
  "spread target source = foldl (\<lambda>obj (k, v). obj_set k v obj) target source"

text \<open>
  The own enumerable properties a spread copies from a value: those of an
  object, the elements of an array and the characters of a string under their
  indices, nothing from the other primitives, \<^verbatim>\<open>null\<close> and \<^verbatim>\<open>undefined\<close>.
\<close>

fun indexed :: "nat \<Rightarrow> 'a list \<Rightarrow> (string \<times> 'a) list" where
  "indexed i [] = []"
| "indexed i (x # xs) = (nat_to_string i, x) # indexed (Suc i) xs"

fun own_properties :: "jsval \<Rightarrow> (string \<times> jsval) list" where
  "own_properties (JObj ps) = ps"
| "own_properties (JArr xs) = indexed 0 xs"
| "own_properties (JStr s) = indexed 0 (map (\<lambda>c. JStr [c]) s)"
| "own_properties v = []"

section \<open>The remote client and the world\<close>

text \<open>
  The class \<^verbatim>\<open>NaverSearchClient\<close> is an external collaborator: its methods are
  parameters. A method reads and writes the client's own state \<open>'s\<close> and
  settles with an outcome. The world records every call the program makes on
  the client, and what is written to the standard error stream
  (\<^verbatim>\<open>console.error\<close>: the message and the values printed after it).
\<close>

record NaverSearchConfig =
  clientId :: string
  clientSecret :: string

datatype client_call =
    Initialize NaverSearchConfig
  | Search jsval
  | SearchLocal jsval
  | SearchAcademic jsval

record 's NaverSearchClient =
  initialize :: "NaverSearchConfig \<Rightarrow> 's \<Rightarrow> jsthrown option \<times> 's"
  search :: "jsval \<Rightarrow> 's \<Rightarrow> outcome \<times> 's"
  searchLocal :: "jsval \<Rightarrow> 's \<Rightarrow> outcome \<times> 's"
  searchAcademic :: "jsval \<Rightarrow> 's \<Rightarrow> outcome \<times> 's"

record 's world =
  calls :: "client_call list"
  client_state :: 's
  stderr :: "(string \<times> jsval list) list"

definition console_error :: "string \<Rightarrow> jsval list \<Rightarrow> 's world \<Rightarrow> 's world" where
  "console_error msg vals w = w\<lparr>stderr := stderr w @ [(msg, vals)]\<rparr>"

definition client_initialize ::
  "'s NaverSearchClient \<Rightarrow> NaverSearchConfig \<Rightarrow> 's world \<Rightarrow> jsthrown option \<times> 's world" where
  "client_initialize client config w =
     (case initialize client config (client_state w) of
        (r, s') \<Rightarrow> (r, w\<lparr>calls := calls w @ [Initialize config], client_state := s'\<rparr>))"

definition client_search :: "'s NaverSearchClient \<Rightarrow> jsval \<Rightarrow> 's world \<Rightarrow> outcome \<times> 's world" where
  "client_search client arg w =
     (case search client arg (client_state w) of
        (r, s') \<Rightarrow> (r, w\<lparr>calls := calls w @ [Search arg], client_state := s'\<rparr>))"

definition client_searchLocal :: "'s NaverSearchClient \<Rightarrow> jsval \<Rightarrow> 's world \<Rightarrow> outcome \<times> 's world" where
  "client_searchLocal client arg w =
     (case searchLocal client arg (client_state w) of
        (r, s') \<Rightarrow> (r, w\<lparr>calls := calls w @ [SearchLocal arg], client_state := s'\<rparr>))"

definition client_searchAcademic :: "'s NaverSearchClient \<Rightarrow> jsval \<Rightarrow> 's world \<Rightarrow> outcome \<times> 's world" where
  "client_searchAcademic client arg w =
     (case searchAcademic client arg (client_state w) of
        (r, s') \<Rightarrow> (r, w\<lparr>calls := calls w @ [SearchAcademic arg], client_state := s'\<rparr>))"

section \<open>The handlers of \<^verbatim>\<open>handlers/search.handlers.ts\<close>\<close>

text \<open>
  A handler is an async function of the arguments: it runs in the world and
  settles with an outcome. None of the handlers catches anything. The client
  is the one instance \<^verbatim>\<open>NaverSearchClient.getInstance()\<close> returns, also where
  \<^verbatim>\<open>handleWebKrSearch\<close> asks for it again.
\<close>

type_synonym 's handler = "jsval \<Rightarrow> 's world \<Rightarrow> outcome \<times> 's world"

text \<open>\<^verbatim>\<open>{ type: tag, ...params }\<close>\<close>

definition tagged :: "string \<Rightarrow> jsval \<Rightarrow> jsval" where
  "tagged tag params = JObj (spread [(''type'', JStr tag)] (own_properties params))"

definition handleAcademicSearch :: "'s NaverSearchClient \<Rightarrow> 's handler" where
  "handleAcademicSearch client params = client_searchAcademic client params"

definition handleBookSearch :: "'s NaverSearchClient \<Rightarrow> 's handler" where
  "handleBookSearch client params = client_search client (tagged ''book'' params)"

definition handleEncycSearch :: "'s NaverSearchClient \<Rightarrow> 's handler" where
  "handleEncycSearch client params = client_search client (tagged ''encyc'' params)"

definition handleImageSearch :: "'s NaverSearchClient \<Rightarrow> 's handler" where
  "handleImageSearch client params = client_search client (tagged ''image'' params)"

definition handleKinSearch :: "'s NaverSearchClient \<Rightarrow> 's handler" where
  "handleKinSearch client params = client_search client (tagged ''kin'' params)"

definition handleLocalSearch :: "'s NaverSearchClient \<Rightarrow> 's handler" where
  "handleLocalSearch client params = client_searchLocal client params"

definition handleNewsSearch :: "'s NaverSearchClient \<Rightarrow> 's handler" where
  "handleNewsSearch client params = client_search client (tagged ''news'' params)"

definition handleBlogSearch :: "'s NaverSearchClient \<Rightarrow> 's handler" where
  "handleBlogSearch client params = client_search client (tagged ''blog'' params)"

definition handleShopSearch :: "'s NaverSearchClient \<Rightarrow> 's handler" where
  "handleShopSearch client params = client_search client (tagged ''shop'' params)"

definition handleCafeArticleSearch :: "'s NaverSearchClient \<Rightarrow> 's handler" where
  "handleCafeArticleSearch client params = client_search client (tagged ''cafearticle'' params)"

definition handleWebKrSearch :: "'s NaverSearchClient \<Rightarrow> 's handler" where
  "handleWebKrSearch client args = client_search client (tagged ''webkr'' args)"

section \<open>The handler table of \<^verbatim>\<open>index.ts\<close>\<close>

text \<open>
  \<^verbatim>\<open>const toolHandlers = { ...searchToolHandlers, ...datalabToolHandlers }\<close>. The two
  tables that are spread are parameters: each is the list of its own
  properties, a tool name with its handler.
\<close>

definition toolHandlers :: "(string \<times> 'h) list \<Rightarrow> (string \<times> 'h) list \<Rightarrow> (string \<times> 'h) list" where
  "toolHandlers searchToolHandlers datalabToolHandlers =
     spread (spread [] searchToolHandlers) datalabToolHandlers"

text \<open>
  \<^verbatim>\<open>toolHandlers[name]\<close> reads a property of an object literal, whose prototype
  is \<^verbatim>\<open>Object.prototype\<close>: a name that is not an own property is looked up
  there. These are the properties of \<^verbatim>\<open>Object.prototype\<close>.
\<close>

datatype prototype_member =
    P_constructor
  | P_defineGetter
  | P_defineSetter
  | P_hasOwnProperty
  | P_lookupGetter
  | P_lookupSetter
  | P_isPrototypeOf
  | P_propertyIsEnumerable
  | P_toString
  | P_valueOf
  | P_proto
  | P_toLocaleString

definition Object_prototype :: "(string \<times> prototype_member) list" where
  "Object_prototype =
     [(''constructor'', P_constructor),
      (''__defineGetter__'', P_defineGetter),
      (''__defineSetter__'', P_defineSetter),
      (''hasOwnProperty'', P_hasOwnProperty),
      (''__lookupGetter__'', P_lookupGetter),
      (''__lookupSetter__'', P_lookupSetter),
      (''isPrototypeOf'', P_isPrototypeOf),
      (''propertyIsEnumerable'', P_propertyIsEnumerable),
      (''toString'', P_toString),
      (''valueOf'', P_valueOf),
      (''__proto__'', P_proto),
      (''toLocaleString'', P_toLocaleString)]"

text \<open>The value of \<^verbatim>\<open>toolHandlers[name]\<close>: \<open>Absent\<close> is \<^verbatim>\<open>undefined\<close>, the only falsy one.\<close>

datatype 'h property = Absent | Own 'h | Inherited prototype_member

definition get_property :: "(string \<times> 'h) list \<Rightarrow> string \<Rightarrow> 'h property" where
  "get_property obj name =
     (case map_of obj name of
        Some h \<Rightarrow> Own h
      | None \<Rightarrow> (case map_of Object_prototype name of Some m \<Rightarrow> Inherited m | None \<Rightarrow> Absent))"

fun is_object :: "jsval \<Rightarrow> bool" where
  "is_object (JArr xs) = True"
| "is_object (JObj ps) = True"
| "is_object v = False"

text \<open>
  The places where the language itself raises a \<^verbatim>\<open>TypeError\<close> in this program: the
  call of an inherited member, and the conversion of an object to a primitive.
  The message of such an error is the engine's: it is the parameter
  \<open>type_error\<close> of what follows.
\<close>

datatype type_error_site = Calling prototype_member | Converting

text \<open>
  \<^verbatim>\<open>handler(args)\<close> when the handler is inherited: the call has no receiver
  (\<^verbatim>\<open>this\<close> is \<^verbatim>\<open>undefined\<close>), and \<open>args\<close> is truthy. \<^verbatim>\<open>Object(args)\<close> is \<open>args\<close> as
  an object (a wrapped primitive serialises as the primitive);
  \<^verbatim>\<open>toString\<close> answers for the receiver; \<^verbatim>\<open>isPrototypeOf\<close> answers \<^verbatim>\<open>false\<close> for a
  primitive before it looks at the receiver; \<^verbatim>\<open>hasOwnProperty\<close> and
  \<^verbatim>\<open>propertyIsEnumerable\<close> convert \<open>args\<close> to a property key before they look at
  the receiver; the others convert the receiver to an object first, and
  \<^verbatim>\<open>__proto__\<close> yields \<^verbatim>\<open>Object.prototype\<close> itself, which is not a function: all of
  these raise a \<^verbatim>\<open>TypeError\<close>.
\<close>

fun call_inherited :: "(type_error_site \<Rightarrow> string) \<Rightarrow> prototype_member \<Rightarrow> jsval \<Rightarrow> outcome" where
  "call_inherited type_error P_constructor args = Inr args"
| "call_inherited type_error P_toString args = Inr (JStr ''[object Undefined]'')"
| "call_inherited type_error P_isPrototypeOf args =
     (if is_object args then Inl (JError (type_error (Calling P_isPrototypeOf)))
      else Inr (JBool False))"
| "call_inherited type_error P_hasOwnProperty args =
     (case String args of
        None \<Rightarrow> Inl (JError (type_error Converting))
      | Some key \<Rightarrow> Inl (JError (type_error (Calling P_hasOwnProperty))))"
| "call_inherited type_error P_propertyIsEnumerable args =
     (case String args of
        None \<Rightarrow> Inl (JError (type_error Converting))
      | Some key \<Rightarrow> Inl (JError (type_error (Calling P_propertyIsEnumerable))))"
| "call_inherited type_error m args = Inl (JError (type_error (Calling m)))"

section \<open>The dispatcher of \<^verbatim>\<open>index.ts\<close>\<close>

record content_item =
  type :: string
  "text" :: "string option"

record response =
  content :: "content_item list"
  isError :: "bool option"

text \<open>
  \<^verbatim>\<open>error instanceof Error ? error.message : String(error)\<close>, where \<open>None\<close> is the
  \<^verbatim>\<open>TypeError\<close> of a thrown value that has no string.
\<close>

fun error_message :: "jsthrown \<Rightarrow> string option" where
  "error_message (JError message) = Some message"
| "error_message (JThrown v) = String v"

text \<open>
  \<open>Inr\<close> is the response it returns. \<open>Inl\<close> is what it throws: the conversion
  of the thrown value comes first and can fail, before anything is logged.
\<close>

definition createErrorResponse ::
  "(type_error_site \<Rightarrow> string) \<Rightarrow> jsthrown \<Rightarrow> 's world \<Rightarrow> (jsthrown + response) \<times> 's world" where
  "createErrorResponse type_error error w =
     (case error_message error of
        None \<Rightarrow> (Inl (JError (type_error Converting)), w)
      | Some errorMessage \<Rightarrow>
          (Inr \<lparr>content = [\<lparr>type = ''text'', text = Some (''Error: '' @ errorMessage)\<rparr>],
                isError = Some True\<rparr>,
           console_error ''API Error:'' [JStr errorMessage] w))"

text \<open>
  The end of the \<^verbatim>\<open>try\<close> block, from the \<^verbatim>\<open>await\<close> on: a rejection is thrown on, a
  result is logged and wrapped. The success response has no \<^verbatim>\<open>isError\<close>
  property, and its text is \<^verbatim>\<open>undefined\<close> when the result has no JSON text.
\<close>

definition call_tool_await :: "string \<Rightarrow> outcome \<times> 's world \<Rightarrow> (jsthrown + response) \<times> 's world" where
  "call_tool_await name settled =
     (case settled of
        (Inl e, w) \<Rightarrow> (Inl e, w)
      | (Inr result, w) \<Rightarrow>
          (Inr \<lparr>content = [\<lparr>type = ''text'', text = JSON_stringify result\<rparr>], isError = None\<rparr>,
           console_error (''Tool '' @ name @ '' executed successfully'') [] w))"

text \<open>
  The \<^verbatim>\<open>try\<close> block of the call-tool request handler: \<open>Inl\<close> is what it throws,
  \<open>Inr\<close> what it returns. The arguments are checked before the name is looked up.
\<close>

definition call_tool_try ::
  "(type_error_site \<Rightarrow> string) \<Rightarrow> (string \<times> 's handler) list \<Rightarrow> string \<Rightarrow> jsval \<Rightarrow> 's world
     \<Rightarrow> (jsthrown + response) \<times> 's world" where
  "call_tool_try type_error handlers name args w =
     (let w1 = console_error (''Executing tool: '' @ name @ '' with args:'') [args] w in
      if \<not> truthy args then (Inl (JError ''Arguments are required''), w1)
      else
        (case get_property handlers name of
           Absent \<Rightarrow> (Inl (JError (''Unknown tool: '' @ name)), w1)
         | Own handler \<Rightarrow> call_tool_await name (handler args w1)
         | Inherited m \<Rightarrow> call_tool_await name (call_inherited type_error m args, w1)))"

text \<open>
  The call-tool request handler: the \<^verbatim>\<open>try\<close> block, and \<^verbatim>\<open>catch (error)\<close> around all
  of it. Its own outcome is \<open>Inr\<close> of the response it resolves with, or \<open>Inl\<close> of
  an exception that escapes it: nothing is around the \<^verbatim>\<open>catch\<close> block, so what
  \<^verbatim>\<open>createErrorResponse\<close> throws escapes.
\<close>

definition call_tool ::
  "(type_error_site \<Rightarrow> string) \<Rightarrow> (string \<times> 's handler) list \<Rightarrow> string \<Rightarrow> jsval \<Rightarrow> 's world
     \<Rightarrow> (jsthrown + response) \<times> 's world" where
  "call_tool type_error handlers name args w =
     (case call_tool_try type_error handlers name args w of
        (Inr r, w') \<Rightarrow> (Inr r, w')
      | (Inl error, w') \<Rightarrow> createErrorResponse type_error error w')"

section \<open>Startup\<close>

text \<open>
  The top level of \<^verbatim>\<open>index.ts\<close> up to the initialisation of the client. \<open>env\<close> is
  \<^verbatim>\<open>process.env\<close> after \<^verbatim>\<open>dotenv.config()\<close>. \<^verbatim>\<open>!v\<close> holds of a variable that is not
  set and of one set to the empty string: the guard is written once for the
  case that one is not set, and once for two values that are set.
  \<^verbatim>\<open>process.exit(1)\<close> ends the process: nothing after it runs. An exception out
  of \<^verbatim>\<open>initialize\<close> is uncaught at the top level of the module.
\<close>

datatype 's process =
    Exited nat "'s world"
  | Uncaught jsthrown "'s world"
  | Initialized "'s world"

definition env_truthy :: "string option \<Rightarrow> bool" where
  "env_truthy v = (case v of None \<Rightarrow> False | Some s \<Rightarrow> s \<noteq> [])"

definition startup :: "'s NaverSearchClient \<Rightarrow> (string \<Rightarrow> string option) \<Rightarrow> 's world \<Rightarrow> 's process" where
  "startup client env w =
     (case (env ''NAVER_CLIENT_ID'', env ''NAVER_CLIENT_SECRET'') of
        (Some NAVER_CLIENT_ID, Some NAVER_CLIENT_SECRET) \<Rightarrow>
          if \<not> env_truthy (Some NAVER_CLIENT_ID) \<or> \<not> env_truthy (Some NAVER_CLIENT_SECRET)
          then Exited 1
                 (console_error
                    ''Error: NAVER_CLIENT_ID and NAVER_CLIENT_SECRET environment variables are required''
                    [] w)
          else
            (case client_initialize client
                    \<lparr>clientId = NAVER_CLIENT_ID, clientSecret = NAVER_CLIENT_SECRET\<rparr> w of
               (None, w') \<Rightarrow> Initialized w'
             | (Some e, w') \<Rightarrow> Uncaught e w')
      | _ \<Rightarrow>
          Exited 1
            (console_error
               ''Error: NAVER_CLIENT_ID and NAVER_CLIENT_SECRET environment variables are required''
               [] w))"

section \<open>Test doubles\<close>

text \<open>
  A stubbed client whose three search methods settle with a fixed outcome and
  keep no state, and a world in which nothing has happened yet.
\<close>

definition stub_client :: "outcome \<Rightarrow> unit NaverSearchClient" where
  "stub_client r =
     \<lparr>initialize = (\<lambda>config s. (None, s)),
      search = (\<lambda>arg s. (r, s)),
      searchLocal = (\<lambda>arg s. (r, s)),
      searchAcademic = (\<lambda>arg s. (r, s))\<rparr>"

definition empty_world :: "unit world" where
  "empty_world = \<lparr>calls = [], client_state = (), stderr = []\<rparr>"

section \<open>The dispatch contract\<close>

lemma get_property_own: "map_of handlers name = Some h \<Longrightarrow> get_property handlers name = Own h"
  by (simp add: get_property_def)

lemma get_property_absent:
  "map_of handlers name = None \<Longrightarrow> map_of Object_prototype name = None \<Longrightarrow>
   get_property handlers name = Absent"
  by (simp add: get_property_def)

text \<open>What the request handler does once the arguments are present and the name is an own key.\<close>

lemma call_tool_own:
  assumes "map_of handlers name = Some handler" and "truthy args"
  shows "call_tool type_error handlers name args w =
     (case handler args (console_error (''Executing tool: '' @ name @ '' with args:'') [args] w) of
        (Inl e, w') \<Rightarrow> createErrorResponse type_error e w'
      | (Inr result, w') \<Rightarrow>
          (Inr \<lparr>content = [\<lparr>type = ''text'', text = JSON_stringify result\<rparr>], isError = None\<rparr>,
           console_error (''Tool '' @ name @ '' executed successfully'') [] w'))"
  using assms
  by (simp add: call_tool_def call_tool_try_def call_tool_await_def get_property_own Let_def
      split: prod.splits sum.splits)

lemma items_text:
  "JSON_stringify (JObj [(''items'', JArr [])]) =
     Some ([CHR ''{'', CHR 0x0A] @ ''  '' @ [CHR 0x22] @ ''items'' @ [CHR 0x22] @ '': []'' @
           [CHR 0x0A] @ ''}'')"
  by (simp add: JSON_stringify_def QuoteJSONString_def quote_char_def)

lemma tagged_query:
  "tagged tag (JObj [(''query'', v)]) = JObj [(''type'', JStr tag), (''query'', v)]"
  by (simp add: tagged_def spread_def key_before_def array_index_def is_digit_def)

text \<open>
  What the request handler can do at all: it resolves with the success envelope
  or with the error envelope, or the \<^verbatim>\<open>try\<close> block threw a value that is not an
  \<^verbatim>\<open>Error\<close> and has no string, and the \<^verbatim>\<open>TypeError\<close> of its conversion escapes.
\<close>

lemma call_tool_outcomes:
  "(\<exists>r w'. call_tool type_error handlers name args w = (Inr r, w') \<and>
      ((\<exists>result. r = \<lparr>content = [\<lparr>type = ''text'', text = JSON_stringify result\<rparr>],
                        isError = None\<rparr>) \<or>
       (\<exists>message. r = \<lparr>content = [\<lparr>type = ''text'', text = Some (''Error: '' @ message)\<rparr>],
                         isError = Some True\<rparr>)))
   \<or> (\<exists>v w'. call_tool_try type_error handlers name args w = (Inl (JThrown v), w') \<and>
          String v = None \<and>
          call_tool type_error handlers name args w = (Inl (JError (type_error Converting)), w'))"
proof (cases "call_tool_try type_error handlers name args w")
  case (Pair x w')
  show ?thesis
  proof (cases x)
    case (Inl e)
    show ?thesis
    proof (cases "error_message e")
      case None
      then obtain v where "e = JThrown v" and "String v = None"
        by (cases e) auto
      with Pair Inl show ?thesis
        by (simp add: call_tool_def createErrorResponse_def)
    next
      case (Some message)
      with Pair Inl show ?thesis
        by (simp add: call_tool_def createErrorResponse_def)
    qed
  next
    case (Inr r)
    with Pair have "\<exists>result. r = \<lparr>content = [\<lparr>type = ''text'', text = JSON_stringify result\<rparr>],
                                   isError = None\<rparr>"
      by (auto simp: call_tool_try_def Let_def call_tool_await_def
          split: if_splits property.splits sum.splits prod.splits)
    with Pair Inr show ?thesis
      by (simp add: call_tool_def)
  qed
qed

text \<open>
  C1 fails on the code. The scenario of the stubbed client, which here rejects
  with the object \<^verbatim>\<open>{toString: 1}\<close>: the handler passes the rejection on, the \<^verbatim>\<open>catch\<close>
  block calls \<^verbatim>\<open>createErrorResponse\<close>, the value is not an \<^verbatim>\<open>Error\<close>, and
  \<^verbatim>\<open>String(error)\<close> raises a \<^verbatim>\<open>TypeError\<close>. The request handler does not resolve with
  a response: it rejects with that \<^verbatim>\<open>TypeError\<close>.
\<close>

theorem call_tool_unconvertible_throw_escapes:
  "fst (call_tool type_error
          [(''news-search'',
            handleNewsSearch (stub_client (Inl (JThrown (JObj [(''toString'', JNum (Finite ''1''))])))))]
          ''news-search'' (JObj [(''query'', JStr ''test'')]) empty_world)
   = Inl (JError (type_error Converting))"
  by (simp add: call_tool_own createErrorResponse_def handleNewsSearch_def client_search_def
      stub_client_def)

text \<open>
  C2, as the code has it. When the arguments are present, the name is an own key
  of the handler table and its handler resolves with \<open>r\<close>, the response is
  one text item carrying \<^verbatim>\<open>JSON.stringify(r, null, 2)\<close>, and it has no \<^verbatim>\<open>isError\<close>
  property (the property is absent, not \<^verbatim>\<open>false\<close>). This holds of every result:
  whatever its numbers, strings, arrays and objects are. The JSON text of
  \<^verbatim>\<open>{items: []}\<close> is an opening brace, a line of two spaces and \<^verbatim>\<open>"items": []\<close>, and a
  closing brace on its own line.
\<close>

theorem call_tool_success_envelope:
  assumes "map_of handlers name = Some handler" and "truthy args"
    and "fst (handler args
               (console_error (''Executing tool: '' @ name @ '' with args:'') [args] w)) = Inr r"
  shows "fst (call_tool type_error handlers name args w) =
           Inr \<lparr>content = [\<lparr>type = ''text'', text = JSON_stringify r\<rparr>], isError = None\<rparr>
         \<and> JSON_stringify (JObj [(''items'', JArr [])]) =
             Some ([CHR ''{'', CHR 0x0A] @ ''  '' @ [CHR 0x22] @ ''items'' @ [CHR 0x22] @
                   '': []'' @ [CHR 0x0A] @ ''}'')"
  using assms by (auto simp: call_tool_own items_text split: prod.splits)

theorem call_tool_success_envelope_witness:
  "truthy (JObj [(''query'', JStr ''test'')]) \<and>
   fst (call_tool (\<lambda>m. [])
          [(''news-search'', handleNewsSearch (stub_client (Inr (JObj [(''items'', JArr [])]))))]
          ''news-search'' (JObj [(''query'', JStr ''test'')]) empty_world)
   = Inr \<lparr>content = [\<lparr>type = ''text'',
             text = Some ([CHR ''{'', CHR 0x0A] @ ''  '' @ [CHR 0x22] @ ''items'' @ [CHR 0x22] @
                          '': []'' @ [CHR 0x0A] @ ''}'')\<rparr>],
            isError = None\<rparr>"
  using call_tool_success_envelope
    [of "[(''news-search'', handleNewsSearch (stub_client (Inr (JObj [(''items'', JArr [])]))))]"
      "''news-search''" "handleNewsSearch (stub_client (Inr (JObj [(''items'', JArr [])])))"
      "JObj [(''query'', JStr ''test'')]" empty_world "JObj [(''items'', JArr [])]" "\<lambda>m. []"]
  by (simp add: handleNewsSearch_def client_search_def stub_client_def)

text \<open>
  C2 as the specification words it fails: in the scenario of the stubbed client
  that returns \<^verbatim>\<open>{items: []}\<close>, the response is not the one with \<^verbatim>\<open>isError: false\<close>.
\<close>

theorem call_tool_success_isError_false_counterexample:
  "fst (call_tool (\<lambda>m. [])
          [(''news-search'', handleNewsSearch (stub_client (Inr (JObj [(''items'', JArr [])]))))]
          ''news-search'' (JObj [(''query'', JStr ''test'')]) empty_world)
   \<noteq> Inr \<lparr>content = [\<lparr>type = ''text'',
             text = Some ([CHR ''{'', CHR 0x0A] @ ''  '' @ [CHR 0x22] @ ''items'' @ [CHR 0x22] @
                          '': []'' @ [CHR 0x0A] @ ''}'')\<rparr>],
            isError = Some False\<rparr>"
  by (simp add: call_tool_own handleNewsSearch_def client_search_def stub_client_def)

text \<open>A falsy arguments value ends the call before the table is read.\<close>

lemma call_tool_falsy:
  assumes "\<not> truthy args"
  shows "call_tool type_error handlers name args w =
     (Inr \<lparr>content = [\<lparr>type = ''text'', text = Some ''Error: Arguments are required''\<rparr>],
           isError = Some True\<rparr>,
      w\<lparr>stderr := stderr w @
           [(''Executing tool: '' @ name @ '' with args:'', [args]),
            (''API Error:'', [JStr ''Arguments are required''])]\<rparr>)"
  using assms
  by (simp add: call_tool_def call_tool_try_def createErrorResponse_def console_error_def Let_def)

lemma contains_after_prefix: "sublist xs (ps @ xs)"
  by (simp add: sublist_def) (metis append_Nil2)

lemma contains_inside: "sublist xs (ps @ xs @ ss)"
  by (auto simp: sublist_def)

text \<open>
  C3, as the code has it. For a tool name that is neither an own key of the
  handler table nor the name of a property of \<^verbatim>\<open>Object.prototype\<close>, and for
  present (truthy) arguments, the response is the error envelope with the text
  \<^verbatim>\<open>Error: Unknown tool: \<close> and the name, which contains \<^verbatim>\<open>Unknown tool\<close>; the world
  gains the two log lines and nothing else, so no handler ran.
\<close>

theorem unknown_tool_error:
  assumes "map_of handlers name = None" and "map_of Object_prototype name = None"
    and "truthy args"
  shows "call_tool type_error handlers name args w =
     (Inr \<lparr>content = [\<lparr>type = ''text'', text = Some (''Error: Unknown tool: '' @ name)\<rparr>],
           isError = Some True\<rparr>,
      w\<lparr>stderr := stderr w @
           [(''Executing tool: '' @ name @ '' with args:'', [args]),
            (''API Error:'', [JStr (''Unknown tool: '' @ name)])]\<rparr>)
   \<and> sublist ''Unknown tool'' (''Error: Unknown tool: '' @ name)"
proof -
  have "sublist ''Unknown tool'' (''Error: '' @ ''Unknown tool'' @ ('': '' @ name))"
    by (rule contains_inside)
  with assms show ?thesis
    by (simp add: call_tool_def call_tool_try_def createErrorResponse_def console_error_def Let_def
        get_property_absent)
qed

theorem unknown_tool_error_witness:
  "truthy (JObj []) \<and>
   fst (call_tool (\<lambda>m. []) [(''news-search'', handleNewsSearch (stub_client (Inr JNull)))]
         ''nonexistent-tool'' (JObj []) empty_world) =
     Inr \<lparr>content = [\<lparr>type = ''text'', text = Some ''Error: Unknown tool: nonexistent-tool''\<rparr>],
          isError = Some True\<rparr>
   \<and> sublist ''Unknown tool'' ''Error: Unknown tool: nonexistent-tool''"
  using unknown_tool_error [of "[(''news-search'', handleNewsSearch (stub_client (Inr JNull)))]"
      "''nonexistent-tool''" "JObj []" "\<lambda>m. []" empty_world]
  by (simp add: Object_prototype_def)

text \<open>
  C3 as the specification words it fails at the arguments \<^verbatim>\<open>null\<close>: the arguments
  are checked first, and the message of an unknown tool called without
  arguments is \<^verbatim>\<open>Arguments are required\<close>.
\<close>

theorem unknown_tool_null_arguments_counterexample:
  "fst (call_tool (\<lambda>m. []) [(''news-search'', handleNewsSearch (stub_client (Inr JNull)))]
         ''nonexistent-tool'' JNull empty_world) =
     Inr \<lparr>content = [\<lparr>type = ''text'', text = Some ''Error: Arguments are required''\<rparr>],
          isError = Some True\<rparr>
   \<and> \<not> sublist ''Unknown tool'' ''Error: Arguments are required''"
  by (simp add: call_tool_falsy sublist_Cons_right prefix_Cons)

text \<open>
  A name that the table does not hold but \<^verbatim>\<open>Object.prototype\<close> does is not rejected
  either: \<^verbatim>\<open>toolHandlers["toString"]\<close> is the inherited function, the check
  \<^verbatim>\<open>!handler\<close> lets it through, and its answer comes back as a success.
\<close>

lemma call_tool_inherited_toString:
  assumes "map_of handlers ''toString'' = None" and "truthy args"
  shows "fst (call_tool type_error handlers ''toString'' args w) =
     Inr \<lparr>content = [\<lparr>type = ''text'',
                       text = Some ([CHR 0x22] @ ''[object Undefined]'' @ [CHR 0x22])\<rparr>],
          isError = None\<rparr>"
  using assms
  by (simp add: call_tool_def call_tool_try_def call_tool_await_def Let_def get_property_def
      Object_prototype_def JSON_stringify_def QuoteJSONString_def quote_char_def)

text \<open>
  C4. For every tool name, registered or not, a call whose arguments are \<^verbatim>\<open>null\<close>
  or absent (\<^verbatim>\<open>undefined\<close>) resolves with the error envelope whose text is
  \<^verbatim>\<open>Error: Arguments are required\<close>. The world afterwards is the world before with
  two more lines on the error stream: no handler ran and the client was not
  called.
\<close>

theorem missing_arguments_error:
  "call_tool type_error handlers name JNull w =
     (Inr \<lparr>content = [\<lparr>type = ''text'', text = Some ''Error: Arguments are required''\<rparr>],
           isError = Some True\<rparr>,
      w\<lparr>stderr := stderr w @
           [(''Executing tool: '' @ name @ '' with args:'', [JNull]),
            (''API Error:'', [JStr ''Arguments are required''])]\<rparr>)
   \<and> call_tool type_error handlers name JUndefined w =
     (Inr \<lparr>content = [\<lparr>type = ''text'', text = Some ''Error: Arguments are required''\<rparr>],
           isError = Some True\<rparr>,
      w\<lparr>stderr := stderr w @
           [(''Executing tool: '' @ name @ '' with args:'', [JUndefined]),
            (''API Error:'', [JStr ''Arguments are required''])]\<rparr>)
   \<and> sublist ''Arguments are required'' ''Error: Arguments are required''"
proof -
  have "sublist ''Arguments are required'' (''Error: '' @ ''Arguments are required'')"
    by (rule contains_after_prefix)
  then show ?thesis by (simp add: call_tool_falsy)
qed

section \<open>Handlers and the client\<close>

lemma calls_console_error [simp]: "calls (console_error msg vals w) = calls w"
  by (simp add: console_error_def)

lemma calls_createErrorResponse [simp]:
  "calls (snd (createErrorResponse type_error e w)) = calls w"
  by (simp add: createErrorResponse_def split: option.splits)

lemma call_tool_own_calls:
  assumes "map_of handlers name = Some handler" and "truthy args"
  shows "calls (snd (call_tool type_error handlers name args w)) =
         calls (snd (handler args
                      (console_error (''Executing tool: '' @ name @ '' with args:'') [args] w)))"
  using assms by (simp add: call_tool_own split: prod.splits sum.splits)

lemma calls_client_search: "calls (snd (client_search client arg w)) = calls w @ [Search arg]"
  by (simp add: client_search_def split: prod.splits)

lemma calls_client_searchLocal:
  "calls (snd (client_searchLocal client arg w)) = calls w @ [SearchLocal arg]"
  by (simp add: client_searchLocal_def split: prod.splits)

text \<open>Every handler settles with the outcome of its one client call, whatever it is.\<close>

lemma search_handlers_pass_through:
  "fst (handleAcademicSearch client params w) =
     fst (searchAcademic client params (client_state w))"
  "fst (handleLocalSearch client params w) = fst (searchLocal client params (client_state w))"
  "fst (handleBookSearch client params w) =
     fst (search client (tagged ''book'' params) (client_state w))"
  "fst (handleEncycSearch client params w) =
     fst (search client (tagged ''encyc'' params) (client_state w))"
  "fst (handleImageSearch client params w) =
     fst (search client (tagged ''image'' params) (client_state w))"
  "fst (handleKinSearch client params w) =
     fst (search client (tagged ''kin'' params) (client_state w))"
  "fst (handleNewsSearch client params w) =
     fst (search client (tagged ''news'' params) (client_state w))"
  "fst (handleBlogSearch client params w) =
     fst (search client (tagged ''blog'' params) (client_state w))"
  "fst (handleShopSearch client params w) =
     fst (search client (tagged ''shop'' params) (client_state w))"
  "fst (handleCafeArticleSearch client params w) =
     fst (search client (tagged ''cafearticle'' params) (client_state w))"
  "fst (handleWebKrSearch client params w) =
     fst (search client (tagged ''webkr'' params) (client_state w))"
  by (simp_all add: handleAcademicSearch_def handleLocalSearch_def handleBookSearch_def
      handleEncycSearch_def handleImageSearch_def handleKinSearch_def handleNewsSearch_def
      handleBlogSearch_def handleShopSearch_def handleCafeArticleSearch_def handleWebKrSearch_def
      client_search_def client_searchLocal_def client_searchAcademic_def split: prod.splits)

text \<open>
  C5. When the handler of a call throws an \<^verbatim>\<open>Error\<close> with the message \<open>message\<close>, the
  response is the error envelope with the text \<^verbatim>\<open>Error: \<close> followed by that
  message. And each of the eleven search handlers settles with exactly the
  outcome of its client method: an error of the client reaches the dispatcher
  as it was thrown.
\<close>

theorem handler_error_envelope:
  assumes "map_of handlers name = Some handler" and "truthy args"
    and "fst (handler args
               (console_error (''Executing tool: '' @ name @ '' with args:'') [args] w)) =
         Inl (JError message)"
  shows "fst (call_tool type_error handlers name args w) =
           Inr \<lparr>content = [\<lparr>type = ''text'', text = Some (''Error: '' @ message)\<rparr>],
                isError = Some True\<rparr>
     \<and> fst (handleAcademicSearch client params w') =
         fst (searchAcademic client params (client_state w'))
     \<and> fst (handleLocalSearch client params w') =
         fst (searchLocal client params (client_state w'))
     \<and> fst (handleBookSearch client params w') =
         fst (search client (tagged ''book'' params) (client_state w'))
     \<and> fst (handleEncycSearch client params w') =
         fst (search client (tagged ''encyc'' params) (client_state w'))
     \<and> fst (handleImageSearch client params w') =
         fst (search client (tagged ''image'' params) (client_state w'))
     \<and> fst (handleKinSearch client params w') =
         fst (search client (tagged ''kin'' params) (client_state w'))
     \<and> fst (handleNewsSearch client params w') =
         fst (search client (tagged ''news'' params) (client_state w'))
     \<and> fst (handleBlogSearch client params w') =
         fst (search client (tagged ''blog'' params) (client_state w'))
     \<and> fst (handleShopSearch client params w') =
         fst (search client (tagged ''shop'' params) (client_state w'))
     \<and> fst (handleCafeArticleSearch client params w') =
         fst (search client (tagged ''cafearticle'' params) (client_state w'))
     \<and> fst (handleWebKrSearch client params w') =
         fst (search client (tagged ''webkr'' params) (client_state w'))"
proof -
  from assms have "fst (call_tool type_error handlers name args w) =
           Inr \<lparr>content = [\<lparr>type = ''text'', text = Some (''Error: '' @ message)\<rparr>],
                isError = Some True\<rparr>"
    by (auto simp: call_tool_own createErrorResponse_def split: prod.splits)
  then show ?thesis
    by (simp only: search_handlers_pass_through simp_thms)
qed

theorem handler_error_envelope_witness:
  "truthy (JObj [(''query'', JStr ''test'')]) \<and>
   fst (call_tool (\<lambda>m. [])
          [(''news-search'', handleNewsSearch (stub_client (Inl (JError ''rate limited''))))]
          ''news-search'' (JObj [(''query'', JStr ''test'')]) empty_world)
   = Inr \<lparr>content = [\<lparr>type = ''text'', text = Some ''Error: rate limited''\<rparr>],
            isError = Some True\<rparr>"
  using handler_error_envelope
    [of "[(''news-search'', handleNewsSearch (stub_client (Inl (JError ''rate limited''))))]"
      "''news-search''" "handleNewsSearch (stub_client (Inl (JError ''rate limited'')))"
      "JObj [(''query'', JStr ''test'')]" empty_world "''rate limited''" "\<lambda>m. []",
      THEN conjunct1]
  by (simp add: handleNewsSearch_def client_search_def stub_client_def)

text \<open>
  C6. Where the table binds \<^verbatim>\<open>news-search\<close> to \<^verbatim>\<open>handleNewsSearch\<close>, calling that tool
  with \<^verbatim>\<open>{query: "test"}\<close> adds exactly one call to the record of client calls:
  \<^verbatim>\<open>search\<close> with the object \<^verbatim>\<open>{type: "news", query: "test"}\<close>. The handler settles with
  the outcome of that call.
\<close>

theorem news_search_calls_search:
  assumes "map_of handlers ''news-search'' = Some (handleNewsSearch client)"
  shows "calls (snd (call_tool type_error handlers ''news-search''
                       (JObj [(''query'', JStr ''test'')]) w)) =
           calls w @ [Search (JObj [(''type'', JStr ''news''), (''query'', JStr ''test'')])]
     \<and> fst (handleNewsSearch client (JObj [(''query'', JStr ''test'')]) w') =
         fst (search client (JObj [(''type'', JStr ''news''), (''query'', JStr ''test'')])
                (client_state w'))"
  using assms
  by (simp add: call_tool_own_calls handleNewsSearch_def tagged_query calls_client_search)
     (simp add: client_search_def split: prod.splits)

theorem news_search_calls_search_witness:
  "calls (snd (call_tool (\<lambda>m. [])
          [(''news-search'', handleNewsSearch (stub_client (Inr (JObj [(''items'', JArr [])]))))]
          ''news-search'' (JObj [(''query'', JStr ''test'')]) empty_world)) =
     [Search (JObj [(''type'', JStr ''news''), (''query'', JStr ''test'')])]
   \<and> fst (handleNewsSearch (stub_client (Inr (JObj [(''items'', JArr [])])))
            (JObj [(''query'', JStr ''test'')]) empty_world) = Inr (JObj [(''items'', JArr [])])"
  using news_search_calls_search
    [of "[(''news-search'', handleNewsSearch (stub_client (Inr (JObj [(''items'', JArr [])]))))]"
      "stub_client (Inr (JObj [(''items'', JArr [])]))" "\<lambda>m. []" empty_world empty_world]
  by (simp add: empty_world_def stub_client_def)

text \<open>
  C7. Where the table binds \<^verbatim>\<open>local-search\<close> to \<^verbatim>\<open>handleLocalSearch\<close>, calling that
  tool with \<^verbatim>\<open>{query: "cafe"}\<close> adds exactly one call to the record of client calls:
  \<^verbatim>\<open>searchLocal\<close> with those arguments, untouched. It is not a call of the generic
  \<^verbatim>\<open>search\<close>, whatever the argument. The record is of the calls the handlers make.
\<close>

theorem local_search_calls_searchLocal:
  assumes "map_of handlers ''local-search'' = Some (handleLocalSearch client)"
  shows "calls (snd (call_tool type_error handlers ''local-search''
                       (JObj [(''query'', JStr ''cafe'')]) w)) =
           calls w @ [SearchLocal (JObj [(''query'', JStr ''cafe'')])]
     \<and> calls (snd (call_tool type_error handlers ''local-search''
                       (JObj [(''query'', JStr ''cafe'')]) w)) \<noteq>
           calls w @ [Search arg]
     \<and> fst (handleLocalSearch client (JObj [(''query'', JStr ''cafe'')]) w') =
         fst (searchLocal client (JObj [(''query'', JStr ''cafe'')]) (client_state w'))"
  using assms
  by (simp add: call_tool_own_calls handleLocalSearch_def calls_client_searchLocal)
     (simp add: client_searchLocal_def split: prod.splits)

theorem local_search_calls_searchLocal_witness:
  "calls (snd (call_tool (\<lambda>m. [])
          [(''local-search'', handleLocalSearch (stub_client (Inr (JObj [(''items'', JArr [])]))))]
          ''local-search'' (JObj [(''query'', JStr ''cafe'')]) empty_world)) =
     [SearchLocal (JObj [(''query'', JStr ''cafe'')])]"
  using local_search_calls_searchLocal
    [of "[(''local-search'', handleLocalSearch (stub_client (Inr (JObj [(''items'', JArr [])]))))]"
      "stub_client (Inr (JObj [(''items'', JArr [])]))" "\<lambda>m. []" empty_world]
  by (simp add: empty_world_def)

section \<open>The spread and the injected type tag\<close>

lemma map_of_obj_set: "map_of (obj_set k v ps) = (map_of ps)(k \<mapsto> v)"
  by (induction ps) auto

text \<open>A spread reads as the target overridden by the source, the later properties winning.\<close>

lemma map_of_spread: "map_of (spread target source) = map_of target ++ map_of (rev source)"
proof (induction source arbitrary: target)
  case Nil
  show ?case by (simp add: spread_def)
next
  case (Cons p source)
  obtain k v where p: "p = (k, v)" by (cases p)
  have "spread target (p # source) = spread (obj_set k v target) source"
    by (simp add: spread_def p)
  then have "map_of (spread target (p # source)) =
      (map_of target)(k \<mapsto> v) ++ map_of (rev source)"
    by (simp only: Cons.IH map_of_obj_set)
  also have "\<dots> = map_of target ++ map_of (rev (p # source))"
    by (auto simp: p fun_eq_iff map_add_def split: option.splits)
  finally show ?case .
qed

lemma map_of_rev_distinct: "distinct (map fst ps) \<Longrightarrow> map_of (rev ps) = map_of ps"
  by (simp add: map_of_inject_set distinct_map)

lemma tagged_type_overridden:
  assumes "distinct (map fst ps)" and "map_of ps ''type'' = Some v"
  shows "\<exists>obj. tagged tag (JObj ps) = JObj obj \<and> map_of obj ''type'' = Some v"
  using assms by (simp add: tagged_def map_of_spread map_of_rev_distinct map_add_def)

text \<open>The keys of the handler table are the keys of the two tables it is spread from.\<close>

lemma toolHandlers_keys:
  "dom (map_of (toolHandlers searchToolHandlers datalabToolHandlers)) =
     fst ` set searchToolHandlers \<union> fst ` set datalabToolHandlers"
  by (auto simp: toolHandlers_def map_of_spread dom_map_of_conv_image_fst)

text \<open>
  C10. For each of the nine handlers that spread the caller's arguments after a
  type tag, and for an arguments object that has a property \<^verbatim>\<open>type\<close> with the value
  \<open>v\<close>, the one call of \<^verbatim>\<open>search\<close> the handler makes carries an object whose
  \<^verbatim>\<open>type\<close> is \<open>v\<close>: the caller's value, not the handler's tag.
\<close>

theorem type_tag_overridden:
  assumes "distinct (map fst ps)" and "map_of ps ''type'' = Some v"
    and "handler \<in> set [handleBookSearch client, handleEncycSearch client,
           handleImageSearch client, handleKinSearch client, handleNewsSearch client,
           handleBlogSearch client, handleShopSearch client, handleCafeArticleSearch client,
           handleWebKrSearch client]"
  shows "\<exists>obj. calls (snd (handler (JObj ps) w)) = calls w @ [Search (JObj obj)]
               \<and> map_of obj ''type'' = Some v"
proof -
  have *: "\<exists>obj. calls (snd (client_search client (tagged tag (JObj ps)) w)) =
                   calls w @ [Search (JObj obj)]
               \<and> map_of obj ''type'' = Some v" for tag
    using tagged_type_overridden [OF assms(1,2), of tag] by (auto simp: calls_client_search)
  from assms(3) consider
      "handler = handleBookSearch client" | "handler = handleEncycSearch client"
    | "handler = handleImageSearch client" | "handler = handleKinSearch client"
    | "handler = handleNewsSearch client" | "handler = handleBlogSearch client"
    | "handler = handleShopSearch client" | "handler = handleCafeArticleSearch client"
    | "handler = handleWebKrSearch client"
    by auto
  then show ?thesis
  proof cases
    case 1 then show ?thesis using * [of "''book''"] by (simp add: handleBookSearch_def)
  next
    case 2 then show ?thesis using * [of "''encyc''"] by (simp add: handleEncycSearch_def)
  next
    case 3 then show ?thesis using * [of "''image''"] by (simp add: handleImageSearch_def)
  next
    case 4 then show ?thesis using * [of "''kin''"] by (simp add: handleKinSearch_def)
  next
    case 5 then show ?thesis using * [of "''news''"] by (simp add: handleNewsSearch_def)
  next
    case 6 then show ?thesis using * [of "''blog''"] by (simp add: handleBlogSearch_def)
  next
    case 7 then show ?thesis using * [of "''shop''"] by (simp add: handleShopSearch_def)
  next
    case 8 then show ?thesis
      using * [of "''cafearticle''"] by (simp add: handleCafeArticleSearch_def)
  next
    case 9 then show ?thesis using * [of "''webkr''"] by (simp add: handleWebKrSearch_def)
  qed
qed

theorem type_tag_overridden_witness:
  "distinct (map fst [(''query'', JStr ''x''), (''type'', JStr ''blog'')]) \<and>
   map_of [(''query'', JStr ''x''), (''type'', JStr ''blog'')] ''type'' = Some (JStr ''blog'') \<and>
   calls (snd (handleNewsSearch (stub_client (Inr JNull))
                 (JObj [(''query'', JStr ''x''), (''type'', JStr ''blog'')]) empty_world)) =
     [Search (JObj [(''type'', JStr ''blog''), (''query'', JStr ''x'')])]"
  using type_tag_overridden
    [of "[(''query'', JStr ''x''), (''type'', JStr ''blog'')]" "JStr ''blog''"
      "handleNewsSearch (stub_client (Inr JNull))" "stub_client (Inr JNull)" empty_world]
  by (simp add: handleNewsSearch_def calls_client_search tagged_def spread_def key_before_def
      array_index_def is_digit_def empty_world_def)

section \<open>Startup\<close>

text \<open>
  C9, as the code has it. If one of the two variables is not set or is set to
  the empty string, the process writes the diagnostic line and exits with code
  1: the client is not called and nothing is served. If both are set and not
  empty, the validation does not exit, and the client's \<^verbatim>\<open>initialize\<close> is called once
  with exactly that pair.
\<close>

theorem startup_credentials:
  "(env ''NAVER_CLIENT_ID'' \<in> {None, Some []} \<or> env ''NAVER_CLIENT_SECRET'' \<in> {None, Some []} \<longrightarrow>
      startup client env w =
        Exited 1 (w\<lparr>stderr := stderr w @
          [(''Error: NAVER_CLIENT_ID and NAVER_CLIENT_SECRET environment variables are required'',
            [])]\<rparr>))
   \<and> (env ''NAVER_CLIENT_ID'' = Some i \<and> i \<noteq> [] \<and>
      env ''NAVER_CLIENT_SECRET'' = Some s \<and> s \<noteq> [] \<longrightarrow>
      (\<exists>w'. (startup client env w = Initialized w' \<or> (\<exists>e. startup client env w = Uncaught e w'))
          \<and> calls w' = calls w @ [Initialize \<lparr>clientId = i, clientSecret = s\<rparr>]
          \<and> stderr w' = stderr w))"
  by (auto simp: startup_def env_truthy_def console_error_def client_initialize_def
      split: option.splits prod.splits)

theorem startup_credentials_witness:
  "startup (stub_client (Inr JNull)) (map_of [(''NAVER_CLIENT_ID'', ''my-id'')]) empty_world =
     Exited 1 (empty_world\<lparr>stderr :=
       [(''Error: NAVER_CLIENT_ID and NAVER_CLIENT_SECRET environment variables are required'',
         [])]\<rparr>)
   \<and> startup (stub_client (Inr JNull))
        (map_of [(''NAVER_CLIENT_ID'', ''my-id''), (''NAVER_CLIENT_SECRET'', ''my-secret'')])
        empty_world =
     Initialized (empty_world\<lparr>calls :=
       [Initialize \<lparr>clientId = ''my-id'', clientSecret = ''my-secret''\<rparr>]\<rparr>)"
  using startup_credentials
      [where env = "map_of [(''NAVER_CLIENT_ID'', ''my-id'')]"
         and client = "stub_client (Inr JNull)" and w = empty_world]
    startup_credentials
      [where env = "map_of [(''NAVER_CLIENT_ID'', ''my-id''), (''NAVER_CLIENT_SECRET'', ''my-secret'')]"
         and i = "''my-id''" and s = "''my-secret''"
         and client = "stub_client (Inr JNull)" and w = empty_world]
  by (simp add: startup_def env_truthy_def client_initialize_def stub_client_def empty_world_def)

text \<open>
  C9 as the specification words it fails when a variable is present and empty:
  both credentials are in the environment, and the process exits with code 1.
\<close>

theorem startup_empty_credential_counterexample:
  "map_of [(''NAVER_CLIENT_ID'', []), (''NAVER_CLIENT_SECRET'', ''my-secret'')]
     ''NAVER_CLIENT_ID'' = Some []
   \<and> map_of [(''NAVER_CLIENT_ID'', []), (''NAVER_CLIENT_SECRET'', ''my-secret'')]
       ''NAVER_CLIENT_SECRET'' = Some ''my-secret''
   \<and> startup (stub_client (Inr JNull))
        (map_of [(''NAVER_CLIENT_ID'', []), (''NAVER_CLIENT_SECRET'', ''my-secret'')])
        empty_world =
     Exited 1 (empty_world\<lparr>stderr :=
       [(''Error: NAVER_CLIENT_ID and NAVER_CLIENT_SECRET environment variables are required'',
         [])]\<rparr>)"
  by (simp add: startup_def env_truthy_def console_error_def empty_world_def)

end
